theory Spec2Isabelle
  imports Complex_Main "HOL-Library.Word"
begin

section \<open>The Google Chat node: a model of \<open>GoogleChat.execute\<close>\<close>

text \<open>
  The node's only operation is \<open>execute\<close> (GoogleChat.node.ts, lines 101 to 415): a loop
  over the input items that resolves parameters, issues one request per item through
  \<open>googleApiRequest\<close> or \<open>googleApiRequestAllItems\<close>, and collects the responses in
  \<open>returnData\<close>. The model passes the variables the loop mutates (\<open>qs\<close>,
  \<open>responseData\<close>, \<open>returnData\<close>) as an explicit state, together with two logs: the
  requests issued and the parameters read, each in order.
\<close>

subsection \<open>Values\<close>

text \<open>
  A JavaScript number is \<open>NaN\<close>, an infinity, or a finite value; every finite double is a
  rational, and the only arithmetic the node performs on a number (\<open>>>> 0\<close>) is exact on
  its value.
\<close>

datatype jsnum = NaN | PosInfinity | NegInfinity | Finite rat

datatype json =
    JUndefined
  | JNull
  | JBool bool
  | JNumber jsnum
  | JString string
  | JArray "json list"
  | JObject "(string \<times> json) list"

type_synonym object = "(string \<times> json) list"

text \<open>Truthiness of a value, as \<open>if (v)\<close> tests it.\<close>

fun truthy :: "json \<Rightarrow> bool" where
  "truthy JUndefined = False"
| "truthy JNull = False"
| "truthy (JBool b) = b"
| "truthy (JNumber NaN) = False"
| "truthy (JNumber (Finite q)) = (q \<noteq> 0)"
| "truthy (JNumber _) = True"
| "truthy (JString s) = (s \<noteq> [])"
| "truthy (JArray _) = True"
| "truthy (JObject _) = True"

text \<open>
  \<open>x >>> 0\<close> applies ToUint32: \<open>NaN\<close> and the infinities give 0, a finite number is
  truncated towards zero and reduced modulo \<open>2 ^ 32\<close>. An absent property reads as
  \<open>undefined\<close>, whose numeric value is \<open>NaN\<close>.
\<close>

definition ToUint32 :: "jsnum \<Rightarrow> 32 word" where
  "ToUint32 n =
     (case n of
        Finite q \<Rightarrow> word_of_int (if q < 0 then - \<lfloor>- q\<rfloor> else \<lfloor>q\<rfloor>)
      | _ \<Rightarrow> 0)"

definition ushr0 :: "jsnum option \<Rightarrow> jsnum" where
  "ushr0 v = Finite (of_int (uint (ToUint32 (case v of None \<Rightarrow> NaN | Some n \<Rightarrow> n))))"

text \<open>Assignment to a property of an object: an existing key keeps its place.\<close>

fun set_prop :: "string \<Rightarrow> json \<Rightarrow> object \<Rightarrow> object" where
  "set_prop k v [] = [(k, v)]"
| "set_prop k v ((k', v') # ps) =
     (if k' = k then (k, v) # ps else (k', v') # set_prop k v ps)"

text \<open>Reading a property: \<open>undefined\<close> when the object has no such key.\<close>

definition get_prop :: "object \<Rightarrow> string \<Rightarrow> json" where
  "get_prop ps k = (case map_of ps k of None \<Rightarrow> JUndefined | Some v \<Rightarrow> v)"

text \<open>
  \<open>Object.assign(body, message)\<close>: each own key of the source is assigned to the
  target, in order. An assignment to the key \<open>__proto__\<close> goes to the prototype setter
  and adds no property to the target; the objects here are their own properties.
\<close>

definition object_assign :: "object \<Rightarrow> object \<Rightarrow> object" where
  "object_assign target source =
     foldl (\<lambda>b (k, v). if k = ''__proto__'' then b else set_prop k v b) target source"

subsection \<open>Errors, requests, state and host\<close>

datatype error = NodeOperationError string | TransportError string | RangeError string

fun message :: "error \<Rightarrow> string" where
  "message (NodeOperationError m) = m"
| "message (TransportError m) = m"
| "message (RangeError m) = m"

datatype http_method = GET | POST | DELETE

text \<open>
  One call of a request helper: \<open>paged\<close> is the property name handed to
  \<open>googleApiRequestAllItems\<close> and \<open>None\<close> for \<open>googleApiRequest\<close>; \<open>body\<close> and \<open>query\<close>
  are \<open>None\<close> where the argument is omitted or \<open>undefined\<close>. \<open>query\<close> is the content of
  \<open>qs\<close> at the moment of the call.
\<close>

record call =
  paged :: "string option"
  verb :: http_method
  path :: string
  body :: "object option"
  query :: "object option"

record state =
  qs :: object
  responseData :: json
  returnData :: "json list"
  calls :: "call list"
  reads :: "(string \<times> nat) list"

text \<open>The parameter groups read through \<open>getNodeParameter\<close> as objects.\<close>

record additional_fields =
  pageSize :: "jsnum option"
  pageToken :: json

record message_ui =
  ui_text :: "string option"
  ui_cards :: json

text \<open>
  What the node receives from outside. \<open>getNodeParameter\<close> appears once per type the
  source casts its result to, and always returns a value; a parameter that is only
  tested with \<open>if\<close> is a value with its truthiness. The request helpers and \<open>validateJSON\<close> live in
  GenericFunctions, which is not part of the sources at hand: they are parameters. A
  helper sees the requests made before it, answers with a response or an error, and,
  since it is handed the shared \<open>qs\<close> object itself, also with what it leaves in \<open>qs\<close>.
  \<open>maxArguments\<close> is the largest number of arguments the JavaScript engine accepts in
  one call through \<open>apply\<close>.
\<close>

record host =
  getInputData :: "json list"
  getString :: "string \<Rightarrow> nat \<Rightarrow> string"
  getFlag :: "string \<Rightarrow> nat \<Rightarrow> json"
  getStrings :: "string \<Rightarrow> nat \<Rightarrow> string list"
  getFields :: "string \<Rightarrow> nat \<Rightarrow> additional_fields"
  getMessageUi :: "string \<Rightarrow> nat \<Rightarrow> message_ui"
  continueOnFail :: bool
  googleApiRequest :: "call list \<Rightarrow> call \<Rightarrow> (error + json) \<times> object"
  googleApiRequestAllItems :: "call list \<Rightarrow> call \<Rightarrow> (error + json) \<times> object"
  validateJSON :: "string \<Rightarrow> json"
  JSON_parse :: "string \<Rightarrow> error + object"
  returnJsonArray :: "json list \<Rightarrow> json list"
  maxArguments :: nat

definition note_read :: "string \<Rightarrow> nat \<Rightarrow> state \<Rightarrow> state" where
  "note_read name i s = s\<lparr>reads := reads s @ [(name, i)]\<rparr>"

text \<open>
  Issuing a request: the call is logged, the helper's answer decides between a value
  assigned to \<open>responseData\<close> and a raised error (then \<open>responseData\<close> keeps its
  previous value).
\<close>

definition issue :: "host \<Rightarrow> call \<Rightarrow> state \<Rightarrow> error option \<times> state" where
  "issue h c s =
     (let (res, q) = (case paged c of
                        None \<Rightarrow> googleApiRequest h (calls s) c
                      | Some _ \<Rightarrow> googleApiRequestAllItems h (calls s) c);
          s1 = s\<lparr>calls := calls s @ [c]\<rparr>;
          s2 = (case query c of None \<Rightarrow> s1 | Some _ \<Rightarrow> s1\<lparr>qs := q\<rparr>)
      in case res of
           Inl e \<Rightarrow> (Some e, s2)
         | Inr r \<Rightarrow> (None, s2\<lparr>responseData := r\<rparr>))"

subsection \<open>The operations\<close>

definition media_download :: "host \<Rightarrow> nat \<Rightarrow> state \<Rightarrow> error option \<times> state" where
  "media_download h i s =
     (let resourceName = getString h ''resourceName'' i;
          s1 = note_read ''resourceName'' i s
      in issue h \<lparr>paged = None, verb = GET,
                  path = ''/v1/media/'' @ resourceName @ ''?alt=media'',
                  body = None, query = None\<rparr> s1)"

definition space_get :: "host \<Rightarrow> nat \<Rightarrow> state \<Rightarrow> error option \<times> state" where
  "space_get h i s =
     (let spaceName = getString h ''spaceName'' i;
          s1 = note_read ''spaceName'' i s
      in issue h \<lparr>paged = None, verb = GET, path = ''/v1/'' @ spaceName,
                  body = None, query = None\<rparr> s1)"

text \<open>
  The two list operations share their shape: \<open>returnAll\<close> is read at index 0; when it
  is truthy all pages are fetched, otherwise \<open>pageSize\<close> and \<open>pageToken\<close> are written
  into \<open>qs\<close> and one page is requested.
\<close>

definition single_page :: "host \<Rightarrow> string \<Rightarrow> nat \<Rightarrow> state \<Rightarrow> error option \<times> state" where
  "single_page h p i s =
     (let additionalFields = getFields h ''additionalFields'' i;
          s1 = note_read ''additionalFields'' i s;
          s2 = s1\<lparr>qs := set_prop ''pageSize'' (JNumber (ushr0 (pageSize additionalFields))) (qs s1)\<rparr>;
          s3 = s2\<lparr>qs := set_prop ''pageToken'' (pageToken additionalFields) (qs s2)\<rparr>
      in issue h \<lparr>paged = None, verb = GET, path = p,
                  body = None, query = Some (qs s3)\<rparr> s3)"

definition space_getAll :: "host \<Rightarrow> nat \<Rightarrow> state \<Rightarrow> error option \<times> state" where
  "space_getAll h i s =
     (let returnAll = getFlag h ''returnAll'' 0;
          s1 = note_read ''returnAll'' 0 s
      in if truthy returnAll
         then issue h \<lparr>paged = Some ''spaces'', verb = GET, path = ''/v1/spaces'',
                       body = None, query = Some (qs s1)\<rparr> s1
         else single_page h ''/v1/spaces'' i s1)"

definition member_get :: "host \<Rightarrow> nat \<Rightarrow> state \<Rightarrow> error option \<times> state" where
  "member_get h i s =
     (let spaceName = getString h ''spaceName'' i;
          s1 = note_read ''spaceName'' i s;
          memberName = getString h ''memberName'' i;
          s2 = note_read ''memberName'' i s1
      in issue h \<lparr>paged = None, verb = GET,
                  path = ''/v1/spaces/'' @ spaceName @ ''/members/'' @ memberName,
                  body = None, query = None\<rparr> s2)"

definition member_getAll :: "host \<Rightarrow> nat \<Rightarrow> state \<Rightarrow> error option \<times> state" where
  "member_getAll h i s =
     (let spaceName = getString h ''spaceName'' i;
          s1 = note_read ''spaceName'' i s;
          returnAll = getFlag h ''returnAll'' 0;
          s2 = note_read ''returnAll'' 0 s1
      in if truthy returnAll
         then issue h \<lparr>paged = Some ''memberships'', verb = GET,
                       path = ''/v1/spaces/'' @ spaceName @ ''/members'',
                       body = None, query = Some (qs s2)\<rparr> s2
         else single_page h (''/v1/spaces/'' @ spaceName @ ''/members'') i s2)"

text \<open>
  \<open>message: create\<close>. The payload is either parsed from \<open>messageJson\<close> or built from
  \<open>messageUi\<close>; only the text of \<open>messageUi\<close> is used (the lines that would copy the
  cards are commented out in the source).
\<close>

definition create_payload :: "host \<Rightarrow> nat \<Rightarrow> state \<Rightarrow> (error + object) \<times> state" where
  "create_payload h i s =
     (let jsonParameterMessage = getFlag h ''jsonParameterMessage'' i;
          s1 = note_read ''jsonParameterMessage'' i s
      in if truthy jsonParameterMessage
         then (let jsonStr = getString h ''messageJson'' i;
                   s2 = note_read ''messageJson'' i s1
               in if validateJSON h jsonStr \<noteq> JUndefined
                  then (JSON_parse h jsonStr, s2)
                  else (Inl (NodeOperationError ''Message (JSON) must be a valid json''), s2))
         else (let messageUi = getMessageUi h ''messageUi'' i;
                   s2 = note_read ''messageUi'' i s1
               in case ui_text messageUi of
                    Some t \<Rightarrow>
                      if t \<noteq> []
                      then (Inr (set_prop ''text'' (JString t) []), s2)
                      else (Inl (NodeOperationError ''Message Text must be provided.''), s2)
                  | None \<Rightarrow> (Inl (NodeOperationError ''Message Text must be provided.''), s2)))"

definition message_create :: "host \<Rightarrow> nat \<Rightarrow> state \<Rightarrow> error option \<times> state" where
  "message_create h i s =
     (let spaceName = getString h ''spaceName'' i;
          s1 = note_read ''spaceName'' i s;
          threadKey = getString h ''threadKey'' i;
          s2 = note_read ''threadKey'' i s1;
          s3 = s2\<lparr>qs := set_prop ''threadKey'' (JString threadKey) (qs s2)\<rparr>
      in case create_payload h i s3 of
           (Inl e, s4) \<Rightarrow> (Some e, s4)
         | (Inr msg, s4) \<Rightarrow>
             issue h \<lparr>paged = None, verb = POST, path = ''/v1/spaces/'' @ spaceName,
                      body = Some (object_assign [] msg), query = Some (qs s4)\<rparr> s4)"

definition message_delete :: "host \<Rightarrow> nat \<Rightarrow> state \<Rightarrow> error option \<times> state" where
  "message_delete h i s =
     (let spaceName = getString h ''spaceName'' i;
          s1 = note_read ''spaceName'' i s;
          messageName = getString h ''messageName'' i;
          s2 = note_read ''messageName'' i s1
      in issue h \<lparr>paged = None, verb = DELETE,
                  path = ''/v1/spaces/'' @ spaceName @ ''/messages/'' @ messageName,
                  body = None, query = None\<rparr> s2)"

definition message_get :: "host \<Rightarrow> nat \<Rightarrow> state \<Rightarrow> error option \<times> state" where
  "message_get h i s =
     (let spaceName = getString h ''spaceName'' i;
          s1 = note_read ''spaceName'' i s;
          messageName = getString h ''messageName'' i;
          s2 = note_read ''messageName'' i s1
      in issue h \<lparr>paged = None, verb = GET,
                  path = ''/v1/spaces/'' @ spaceName @ ''/messages/'' @ messageName,
                  body = None, query = None\<rparr> s2)"

text \<open>
  \<open>message: update\<close>. The mask is rendered by appending each option followed by a
  comma and then dropping the last character (\<open>slice(0, -1)\<close>).
\<close>

definition render_updateMask :: "string list \<Rightarrow> string" where
  "render_updateMask updateMaskOptions =
     butlast (foldl (\<lambda>updateMask option. updateMask @ option @ '','') [] updateMaskOptions)"

definition update_payload ::
  "host \<Rightarrow> string list \<Rightarrow> nat \<Rightarrow> state \<Rightarrow> (error + object) \<times> state" where
  "update_payload h updateMaskOptions i s =
     (let jsonParameterUpdateOptions = getFlag h ''jsonParameterUpdateOptions'' i;
          s1 = note_read ''jsonParameterUpdateOptions'' i s
      in if truthy jsonParameterUpdateOptions
         then (let jsonStr = getString h ''updateOptionsJson'' i;
                   s2 = note_read ''updateOptionsJson'' i s1
               in if validateJSON h jsonStr \<noteq> JUndefined
                  then (JSON_parse h jsonStr, s2)
                  else (Inl (NodeOperationError ''Update Options (JSON) must be a valid json''), s2))
         else if ''text'' \<in> set updateMaskOptions
              then (let textUi = getString h ''textUi'' i;
                        s2 = note_read ''textUi'' i s1
                    in if textUi \<noteq> []
                       then (Inr (set_prop ''text'' (JString textUi) []), s2)
                       else (Inl (NodeOperationError ''Text input must be provided.''), s2))
              else (Inr [], s1))"

definition message_update :: "host \<Rightarrow> nat \<Rightarrow> state \<Rightarrow> error option \<times> state" where
  "message_update h i s =
     (let spaceName = getString h ''spaceName'' i;
          s1 = note_read ''spaceName'' i s;
          messageName = getString h ''messageName'' i;
          s2 = note_read ''messageName'' i s1;
          updateMaskOptions = getStrings h ''updateMask'' i;
          s3 = note_read ''updateMask'' i s2
      in if length updateMaskOptions \<noteq> 0
         then (let s4 = s3\<lparr>qs := set_prop ''updateMask''
                                    (JString (render_updateMask updateMaskOptions)) (qs s3)\<rparr>
               in case update_payload h updateMaskOptions i s4 of
                    (Inl e, s5) \<Rightarrow> (Some e, s5)
                  | (Inr updateOptions, s5) \<Rightarrow>
                      issue h \<lparr>paged = None, verb = POST,
                               path = ''/v1/spaces/'' @ spaceName @ ''/messages/'' @ messageName,
                               body = Some (object_assign [] updateOptions),
                               query = Some (qs s5)\<rparr> s5)
         else (Some (NodeOperationError ''Update Mask must not be empty.''), s3))"

definition attachment_get :: "host \<Rightarrow> nat \<Rightarrow> state \<Rightarrow> error option \<times> state" where
  "attachment_get h i s =
     (let spaceName = getString h ''spaceName'' i;
          s1 = note_read ''spaceName'' i s;
          messageName = getString h ''messageName'' i;
          s2 = note_read ''messageName'' i s1;
          attachmentName = getString h ''attachmentName'' i;
          s3 = note_read ''attachmentName'' i s2
      in issue h \<lparr>paged = None, verb = POST,
                  path = ''/v1/spaces/'' @ spaceName @ ''/messages/'' @ messageName
                         @ ''/attachments/'' @ attachmentName,
                  body = None, query = None\<rparr> s3)"

subsection \<open>The body of the loop\<close>

text \<open>Lines 111 to 399: the nested conditionals on \<open>resource\<close> and \<open>operation\<close>.\<close>

definition dispatch ::
  "host \<Rightarrow> string \<Rightarrow> string \<Rightarrow> nat \<Rightarrow> state \<Rightarrow> error option \<times> state" where
  "dispatch h resource operation i s =
     (if resource = ''media'' then
        (if operation = ''download'' then media_download h i s else (None, s))
      else if resource = ''space'' then
        (if operation = ''get'' then space_get h i s
         else if operation = ''getAll'' then space_getAll h i s
         else (None, s))
      else if resource = ''member'' then
        (if operation = ''get'' then member_get h i s
         else if operation = ''getAll'' then member_getAll h i s
         else (None, s))
      else if resource = ''message'' then
        (if operation = ''create'' then message_create h i s
         else if operation = ''delete'' then message_delete h i s
         else if operation = ''get'' then message_get h i s
         else if operation = ''update'' then message_update h i s
         else (None, s))
      else if resource = ''attachment'' then
        (if operation = ''get'' then attachment_get h i s else (None, s))
      else (None, s))"

text \<open>
  Lines 400 to 404: the response is flattened into \<open>returnData\<close>. An array goes
  through \<open>returnData.push.apply(returnData, responseData)\<close>, which hands every element
  to \<open>push\<close> as an argument of one call: beyond the engine's limit that call throws a
  \<open>RangeError\<close> inside the \<open>try\<close> block and nothing is appended.
\<close>

fun isArray :: "json \<Rightarrow> bool" where
  "isArray (JArray _) = True"
| "isArray _ = False"

definition aggregate :: "nat \<Rightarrow> json \<Rightarrow> json list \<Rightarrow> error + json list" where
  "aggregate limit response out =
     (case response of
        JArray xs \<Rightarrow>
          if limit < length xs
          then Inl (RangeError ''Maximum call stack size exceeded'')
          else Inr (out @ xs)
      | _ \<Rightarrow> Inr (if response \<noteq> JUndefined then out @ [response] else out))"

definition try_block ::
  "host \<Rightarrow> string \<Rightarrow> string \<Rightarrow> nat \<Rightarrow> state \<Rightarrow> error option \<times> state" where
  "try_block h resource operation i s =
     (case dispatch h resource operation i s of
        (Some e, s1) \<Rightarrow> (Some e, s1)
      | (None, s1) \<Rightarrow>
          (case aggregate (maxArguments h) (responseData s1) (returnData s1) of
             Inl e \<Rightarrow> (Some e, s1)
           | Inr out \<Rightarrow> (None, s1\<lparr>returnData := out\<rparr>)))"

text \<open>Lines 405 to 412: what the \<open>catch\<close> clause appends under continue-on-fail.\<close>

definition error_record :: "error \<Rightarrow> json" where
  "error_record e = JObject [(''error'', JString (message e))]"

definition push_error :: "error \<Rightarrow> state \<Rightarrow> state" where
  "push_error e s = s\<lparr>returnData := returnData s @ [error_record e]\<rparr>"

text \<open>The loop over the item indices: \<open>for (let i = 0; i < length; i++)\<close>.\<close>

fun loop ::
  "host \<Rightarrow> string \<Rightarrow> string \<Rightarrow> nat list \<Rightarrow> state \<Rightarrow> error option \<times> state" where
  "loop h resource operation [] s = (None, s)"
| "loop h resource operation (i # rest) s =
     (case try_block h resource operation i s of
        (None, s1) \<Rightarrow> loop h resource operation rest s1
      | (Some e, s1) \<Rightarrow>
          if continueOnFail h
          then loop h resource operation rest (push_error e s1)
          else (Some e, s1))"

text \<open>
  The pairs of the routing table of the specification (section 4.2), in its order.
\<close>

definition dispatch_table :: "(string \<times> string) list" where
  "dispatch_table =
     [(''media'', ''download''), (''space'', ''get''), (''space'', ''getAll''),
      (''member'', ''get''), (''member'', ''getAll''), (''message'', ''create''),
      (''message'', ''delete''), (''message'', ''get''), (''message'', ''update''),
      (''attachment'', ''get'')]"

definition initial :: state where
  "initial = \<lparr>qs = [], responseData = JUndefined, returnData = [], calls = [], reads = []\<rparr>"

text \<open>The state in which the loop starts: \<open>resource\<close> and \<open>operation\<close> have been read.\<close>

definition start :: state where
  "start = note_read ''operation'' 0 (note_read ''resource'' 0 initial)"

text \<open>
  \<open>execute\<close>: the result is the error thrown or the one-element list holding
  \<open>returnJsonArray(returnData)\<close>; the state at the end is returned beside it, so that
  what was requested and read can be stated.
\<close>

definition execute :: "host \<Rightarrow> (error + json list list) \<times> state" where
  "execute h =
     (let items = getInputData h;
          resource = getString h ''resource'' 0;
          s1 = note_read ''resource'' 0 initial;
          operation = getString h ''operation'' 0;
          s2 = note_read ''operation'' 0 s1
      in case loop h resource operation [0 ..< length items] s2 of
           (Some e, s3) \<Rightarrow> (Inl e, s3)
         | (None, s3) \<Rightarrow> (Inr [returnJsonArray h (returnData s3)], s3))"

subsection \<open>Reference definitions in the words of the specification\<close>

text \<open>
  The unsigned 32-bit representation of a number (section 3, PageQuery): a fractional
  value is truncated towards zero, the result wraps modulo \<open>2 ^ 32\<close>; a value that is
  not a finite number has representation 0.
\<close>

definition unsigned32 :: "jsnum \<Rightarrow> int" where
  "unsigned32 n =
     (case n of
        Finite q \<Rightarrow> (if q < 0 then \<lceil>q\<rceil> else \<lfloor>q\<rfloor>) mod 2 ^ 32
      | _ \<Rightarrow> 0)"

text \<open>
  The comma-joined rendering of a list of field names (section 3, UpdateMask): a
  comma between neighbours, none after the last.
\<close>

fun comma_joined :: "string list \<Rightarrow> string" where
  "comma_joined [] = []"
| "comma_joined [x] = x"
| "comma_joined (x # y # ys) = x @ '','' @ comma_joined (y # ys)"

subsection \<open>Concrete hosts\<close>

text \<open>
  A request helper that answers the \<open>n\<close>-th request with the \<open>n\<close>-th element of a
  script and leaves \<open>qs\<close> as it found it, and a host around it: three input items,
  every string parameter equal to its own name, every flag false, an engine that
  accepts 125000 arguments in one call.
\<close>

definition scripted :: "(error + json) list \<Rightarrow> call list \<Rightarrow> call \<Rightarrow> (error + json) \<times> object" where
  "scripted answers history c =
     (if length history < length answers then answers ! length history else Inr JUndefined,
      case query c of None \<Rightarrow> [] | Some q \<Rightarrow> q)"

definition example_host :: "string \<Rightarrow> string \<Rightarrow> bool \<Rightarrow> (error + json) list \<Rightarrow> host" where
  "example_host resource operation cont answers =
     \<lparr>getInputData = [JObject [], JObject [], JObject []],
      getString = (\<lambda>name i. if name = ''resource'' then resource
                            else if name = ''operation'' then operation else name),
      getFlag = (\<lambda>name i. JBool False),
      getStrings = (\<lambda>name i. [''text'', ''cards'']),
      getFields = (\<lambda>name i. \<lparr>pageSize = Some (Finite (- 1)), pageToken = JUndefined\<rparr>),
      getMessageUi = (\<lambda>name i. \<lparr>ui_text = Some ''hello'', ui_cards = JArray [JObject []]\<rparr>),
      continueOnFail = cont,
      googleApiRequest = scripted answers,
      googleApiRequestAllItems = scripted answers,
      validateJSON = (\<lambda>jsonStr. JUndefined),
      JSON_parse = (\<lambda>jsonStr. Inl (NodeOperationError ''Unexpected token'')),
      returnJsonArray = map (\<lambda>d. JObject [(''json'', d)]),
      maxArguments = 125000\<rparr>"

text \<open>
  Two runs over three items whose second request fails: \<open>message: get\<close>, where each
  response is one object, and \<open>space: getAll\<close> with \<open>returnAll\<close> set, where each
  response is an array.
\<close>

definition get_answers :: "(error + json) list" where
  "get_answers =
     [Inr (JObject [(''name'', JString ''m1'')]),
      Inl (TransportError ''boom''),
      Inr (JObject [(''name'', JString ''m3'')])]"

definition list_answers :: "(error + json) list" where
  "list_answers =
     [Inr (JArray [JObject [(''name'', JString ''s1'')], JObject [(''name'', JString ''s2'')]]),
      Inl (TransportError ''boom''),
      Inr (JArray [JObject [(''name'', JString ''s3'')]])]"

definition listing_host :: host where
  "listing_host =
     (example_host ''space'' ''getAll'' True list_answers)\<lparr>getFlag := \<lambda>name i. JBool True\<rparr>"

text \<open>
  A run of \<open>space: getAll\<close> with \<open>returnAll\<close> set over one item, whose response is
  an array of 150000 spaces.
\<close>

definition many_spaces :: "json list" where
  "many_spaces = replicate 150000 (JObject [(''name'', JString ''s'')])"

definition large_list_host :: host where
  "large_list_host =
     (example_host ''space'' ''getAll'' True [Inr (JArray many_spaces)])
       \<lparr>getInputData := [JObject []], getFlag := \<lambda>name i. JBool True\<rparr>"

text \<open>
  A run of \<open>message: update\<close> over one item in structured mode, with the mask
  \<open>[text]\<close> and an empty \<open>textUi\<close>.
\<close>

definition empty_text_host :: host where
  "empty_text_host =
     (example_host ''message'' ''update'' False [])
       \<lparr>getInputData := [JObject []],
        getString := (\<lambda>name i. if name = ''resource'' then ''message''
                               else if name = ''operation'' then ''update''
                               else if name = ''textUi'' then [] else name),
        getStrings := (\<lambda>name i. [''text''])\<rparr>"

section \<open>Properties\<close>

subsection \<open>Auxiliary facts\<close>

text \<open>What issuing a request and noting a read change in the state.\<close>

lemma issue_returnData: "returnData (snd (issue h c s)) = returnData s"
  by (simp add: issue_def Let_def split: prod.splits sum.splits option.splits)

lemma issue_calls: "calls (snd (issue h c s)) = calls s @ [c]"
  by (simp add: issue_def Let_def split: prod.splits sum.splits option.splits)

lemma note_read_simps:
  "qs (note_read n i s) = qs s"
  "responseData (note_read n i s) = responseData s"
  "returnData (note_read n i s) = returnData s"
  "calls (note_read n i s) = calls s"
  "reads (note_read n i s) = reads s @ [(n, i)]"
  by (simp_all add: note_read_def)

text \<open>No operation touches \<open>returnData\<close>: only the aggregator and the catch clause do.\<close>

lemma media_download_returnData: "returnData (snd (media_download h i s)) = returnData s"
  by (simp add: media_download_def Let_def issue_returnData note_read_simps)

lemma space_get_returnData: "returnData (snd (space_get h i s)) = returnData s"
  by (simp add: space_get_def Let_def issue_returnData note_read_simps)

lemma single_page_returnData: "returnData (snd (single_page h p i s)) = returnData s"
  by (simp add: single_page_def Let_def issue_returnData note_read_simps)

lemma space_getAll_returnData: "returnData (snd (space_getAll h i s)) = returnData s"
  by (simp add: space_getAll_def Let_def issue_returnData single_page_returnData note_read_simps)

lemma member_get_returnData: "returnData (snd (member_get h i s)) = returnData s"
  by (simp add: member_get_def Let_def issue_returnData note_read_simps)

lemma member_getAll_returnData: "returnData (snd (member_getAll h i s)) = returnData s"
  by (simp add: member_getAll_def Let_def issue_returnData single_page_returnData note_read_simps)

lemma create_payload_returnData: "returnData (snd (create_payload h i s)) = returnData s"
  by (simp add: create_payload_def Let_def note_read_simps split: option.splits)

lemma message_create_returnData: "returnData (snd (message_create h i s)) = returnData s"
proof -
  let ?s3 = "(note_read ''threadKey'' i (note_read ''spaceName'' i s))
               \<lparr>qs := set_prop ''threadKey'' (JString (getString h ''threadKey'' i))
                       (qs (note_read ''threadKey'' i (note_read ''spaceName'' i s)))\<rparr>"
  have "returnData (snd (create_payload h i ?s3)) = returnData s"
    by (simp add: create_payload_returnData note_read_simps)
  then show ?thesis
    by (cases "create_payload h i ?s3")
       (auto simp: message_create_def Let_def issue_returnData split: sum.splits)
qed

lemma message_delete_returnData: "returnData (snd (message_delete h i s)) = returnData s"
  by (simp add: message_delete_def Let_def issue_returnData note_read_simps)

lemma message_get_returnData: "returnData (snd (message_get h i s)) = returnData s"
  by (simp add: message_get_def Let_def issue_returnData note_read_simps)

lemma update_payload_returnData: "returnData (snd (update_payload h m i s)) = returnData s"
  by (simp add: update_payload_def Let_def note_read_simps)

lemma message_update_returnData: "returnData (snd (message_update h i s)) = returnData s"
proof -
  let ?s3 = "note_read ''updateMask'' i (note_read ''messageName'' i (note_read ''spaceName'' i s))"
  let ?m = "getStrings h ''updateMask'' i"
  let ?s4 = "?s3\<lparr>qs := set_prop ''updateMask'' (JString (render_updateMask ?m)) (qs ?s3)\<rparr>"
  have "returnData (snd (update_payload h ?m i ?s4)) = returnData s"
    by (simp add: update_payload_returnData note_read_simps)
  then show ?thesis
    by (cases "update_payload h ?m i ?s4")
       (auto simp: message_update_def Let_def issue_returnData note_read_simps split: sum.splits)
qed

lemma attachment_get_returnData: "returnData (snd (attachment_get h i s)) = returnData s"
  by (simp add: attachment_get_def Let_def issue_returnData note_read_simps)

lemma dispatch_returnData: "returnData (snd (dispatch h res opn i s)) = returnData s"
  by (simp add: dispatch_def media_download_returnData space_get_returnData
      space_getAll_returnData member_get_returnData member_getAll_returnData
      message_create_returnData message_delete_returnData message_get_returnData
      message_update_returnData attachment_get_returnData)

lemma try_block_ok:
  assumes "try_block h res opn i s = (None, s')"
  shows "aggregate (maxArguments h) (responseData s') (returnData s) = Inr (returnData s')"
proof -
  obtain r s1 where d: "dispatch h res opn i s = (r, s1)"
    by (cases "dispatch h res opn i s")
  have "returnData s1 = returnData s"
    using d dispatch_returnData [of h res opn i s] by simp
  then show ?thesis
    using assms d by (cases r) (auto simp: try_block_def split: sum.splits)
qed

lemma try_block_err:
  assumes "try_block h res opn i s = (Some e, s')"
  shows "returnData s' = returnData s"
proof -
  obtain r s1 where d: "dispatch h res opn i s = (r, s1)"
    by (cases "dispatch h res opn i s")
  have "returnData s1 = returnData s"
    using d dispatch_returnData [of h res opn i s] by simp
  then show ?thesis
    using assms d by (cases r) (auto simp: try_block_def split: sum.splits)
qed

text \<open>
  What one successful request contributes to \<open>returnData\<close> of the run, by the shape
  and the length of the response.
\<close>

lemma try_block_contribution:
  assumes "dispatch h res opn i s = (None, s1)"
  shows "responseData s1 = JArray xs \<Longrightarrow> length xs \<le> maxArguments h
         \<Longrightarrow> try_block h res opn i s = (None, s1\<lparr>returnData := returnData s @ xs\<rparr>)"
    and "responseData s1 = JArray xs \<Longrightarrow> maxArguments h < length xs
         \<Longrightarrow> try_block h res opn i s
             = (Some (RangeError ''Maximum call stack size exceeded''), s1)"
    and "\<not> isArray (responseData s1) \<Longrightarrow> responseData s1 \<noteq> JUndefined
         \<Longrightarrow> try_block h res opn i s
             = (None, s1\<lparr>returnData := returnData s @ [responseData s1]\<rparr>)"
    and "responseData s1 = JUndefined
         \<Longrightarrow> try_block h res opn i s = (None, s1\<lparr>returnData := returnData s\<rparr>)"
proof -
  have k: "returnData s1 = returnData s"
    using assms dispatch_returnData [of h res opn i s] by simp
  show "responseData s1 = JArray xs \<Longrightarrow> length xs \<le> maxArguments h
         \<Longrightarrow> try_block h res opn i s = (None, s1\<lparr>returnData := returnData s @ xs\<rparr>)"
    using assms k by (simp add: try_block_def aggregate_def)
  show "responseData s1 = JArray xs \<Longrightarrow> maxArguments h < length xs
         \<Longrightarrow> try_block h res opn i s
             = (Some (RangeError ''Maximum call stack size exceeded''), s1)"
    using assms k by (simp add: try_block_def aggregate_def)
  show "\<not> isArray (responseData s1) \<Longrightarrow> responseData s1 \<noteq> JUndefined
         \<Longrightarrow> try_block h res opn i s
             = (None, s1\<lparr>returnData := returnData s @ [responseData s1]\<rparr>)"
    using assms k by (cases "responseData s1") (simp_all add: try_block_def aggregate_def)
  show "responseData s1 = JUndefined
         \<Longrightarrow> try_block h res opn i s = (None, s1\<lparr>returnData := returnData s\<rparr>)"
    using assms k by (simp add: try_block_def aggregate_def)
qed

text \<open>The loop of a run over three items, and the shape of \<open>execute\<close>.\<close>

lemma upt_three: "[0 ..< 3] = [0, 1, 2]"
  by (simp add: upt_rec)

lemma execute_unfold:
  "execute h =
     (case loop h (getString h ''resource'' 0) (getString h ''operation'' 0)
             [0 ..< length (getInputData h)] start of
        (Some e, s3) \<Rightarrow> (Inl e, s3)
      | (None, s3) \<Rightarrow> (Inr [returnJsonArray h (returnData s3)], s3))"
  by (simp add: execute_def start_def Let_def)

text \<open>Outside the routing table nothing happens.\<close>

lemma dispatch_miss:
  "(res, opn) \<notin> set dispatch_table \<Longrightarrow> dispatch h res opn i s = (None, s)"
  by (auto simp: dispatch_def dispatch_table_def)

lemma loop_miss:
  "(res, opn) \<notin> set dispatch_table \<Longrightarrow> responseData s = JUndefined
   \<Longrightarrow> loop h res opn is s = (None, s)"
  by (induction "is") (simp_all add: try_block_def dispatch_miss aggregate_def)

text \<open>Properties of objects, of the coercion and of the single-page request.\<close>

lemma get_prop_set_prop:
  "get_prop (set_prop k v ps) k' = (if k' = k then v else get_prop ps k')"
  by (induction ps) (auto simp: get_prop_def)

lemma uint_ToUint32: "uint (ToUint32 n) = unsigned32 n"
  by (cases n) (simp_all add: ToUint32_def unsigned32_def uint_word_of_int ceiling_def)

lemma single_page_calls:
  "calls (snd (single_page h p i s)) = calls s @
     [\<lparr>paged = None, verb = GET, path = p, body = None,
       query = Some (set_prop ''pageToken'' (pageToken (getFields h ''additionalFields'' i))
                (set_prop ''pageSize'' (JNumber (ushr0 (pageSize (getFields h ''additionalFields'' i))))
                   (qs s)))\<rparr>]"
  by (simp add: single_page_def Let_def issue_calls note_read_simps)

lemma getAll_single_page:
  assumes "\<not> truthy (getFlag h ''returnAll'' 0)"
    and "(res, opn) = (''space'', ''getAll'') \<or> (res, opn) = (''member'', ''getAll'')"
  shows "\<exists>c q. calls (snd (dispatch h res opn i s)) = calls s @ [c]
           \<and> paged c = None \<and> verb c = GET \<and> query c = Some q
           \<and> get_prop q ''pageSize''
               = JNumber (ushr0 (pageSize (getFields h ''additionalFields'' i)))
           \<and> get_prop q ''pageToken'' = pageToken (getFields h ''additionalFields'' i)"
proof -
  let ?af = "getFields h ''additionalFields'' i"
  have q: "get_prop (set_prop ''pageToken'' (pageToken ?af)
              (set_prop ''pageSize'' (JNumber (ushr0 (pageSize ?af))) ps)) ''pageSize''
             = JNumber (ushr0 (pageSize ?af))
           \<and> get_prop (set_prop ''pageToken'' (pageToken ?af)
              (set_prop ''pageSize'' (JNumber (ushr0 (pageSize ?af))) ps)) ''pageToken''
             = pageToken ?af" for ps
    by (simp add: get_prop_set_prop)
  from assms(2) show ?thesis
  proof
    assume "(res, opn) = (''space'', ''getAll'')"
    then have "dispatch h res opn i s = single_page h ''/v1/spaces'' i (note_read ''returnAll'' 0 s)"
      using assms(1) by (simp add: dispatch_def space_getAll_def Let_def)
    then show ?thesis
      using q by (simp add: single_page_calls note_read_simps)
  next
    assume "(res, opn) = (''member'', ''getAll'')"
    then have "dispatch h res opn i s
        = single_page h (''/v1/spaces/'' @ getString h ''spaceName'' i @ ''/members'') i
            (note_read ''returnAll'' 0 (note_read ''spaceName'' i s))"
      using assms(1) by (simp add: dispatch_def member_getAll_def Let_def)
    then show ?thesis
      using q by (simp add: single_page_calls note_read_simps)
  qed
qed

text \<open>The rendering loop of the update mask, and what resolving the payload leaves alone.\<close>

lemma foldl_append_comma:
  "foldl (\<lambda>updateMask option. updateMask @ option @ '','') acc xs
     = acc @ concat (map (\<lambda>x. x @ '','') xs)"
  by (induction xs arbitrary: acc) simp_all

lemma concat_comma_joined:
  "xs \<noteq> [] \<Longrightarrow> concat (map (\<lambda>x. x @ '','') xs) = comma_joined xs @ '',''"
  by (induction xs rule: comma_joined.induct) simp_all

lemma render_updateMask_joined:
  "xs \<noteq> [] \<Longrightarrow> render_updateMask xs = comma_joined xs"
  by (simp add: render_updateMask_def foldl_append_comma concat_comma_joined butlast_append)

lemma update_payload_calls: "calls (snd (update_payload h m i s)) = calls s"
  by (simp add: update_payload_def Let_def note_read_simps)

lemma update_payload_qs: "qs (snd (update_payload h m i s)) = qs s"
  by (simp add: update_payload_def Let_def note_read_simps)

lemma update_payload_fst: "fst (update_payload h m i s) = fst (update_payload h m i s')"
  by (simp add: update_payload_def Let_def)

text \<open>Unfolding the concrete hosts and the body of the loop.\<close>

lemmas host_eval = example_host_def scripted_def start_def initial_def note_read_def

lemmas run_eval = try_block_def dispatch_def message_get_def space_getAll_def issue_def
  aggregate_def push_error_def error_record_def Let_def

subsection \<open>The claims\<close>

text \<open>
  Claim C1 as stated does not hold: the entries are counted per response element. With
  \<open>space: getAll\<close> and \<open>returnAll\<close> set, three items, continue-on-fail enabled, a first
  response of two spaces, a failing second request and a third response of one space,
  the output has four entries.
\<close>

theorem three_entries_counterexample:
  "length (getInputData listing_host) = 3
   \<and> continueOnFail listing_host
   \<and> fst (try_block listing_host ''space'' ''getAll'' 1
            (snd (try_block listing_host ''space'' ''getAll'' 0 start)))
       = Some (TransportError ''boom'')
   \<and> fst (execute listing_host)
       = Inr [[JObject [(''json'', JObject [(''name'', JString ''s1'')])],
               JObject [(''json'', JObject [(''name'', JString ''s2'')])],
               JObject [(''json'', JObject [(''error'', JString ''boom'')])],
               JObject [(''json'', JObject [(''name'', JString ''s3'')])]]]"
  by (simp add: listing_host_def list_answers_def host_eval run_eval execute_def)

text \<open>
  Claim C1, as amended. A run over three items with continue-on-fail enabled, in which
  items 1 and 3 succeed, each with a response that is defined and not an array, and item
  2 raises a \<open>TransportError\<close>, hands \<open>returnJsonArray\<close> exactly three entries in item
  order: the response of item 1, the record \<open>{error: message}\<close>, the response of item 3.
\<close>

theorem continue_past_second_item:
  assumes "length (getInputData h) = 3"
    and "continueOnFail h"
    and "try_block h (getString h ''resource'' 0) (getString h ''operation'' 0) 0 start = (None, s1)"
    and "\<not> isArray (responseData s1)" and "responseData s1 \<noteq> JUndefined"
    and "try_block h (getString h ''resource'' 0) (getString h ''operation'' 0) 1 s1
           = (Some (TransportError m), s2)"
    and "try_block h (getString h ''resource'' 0) (getString h ''operation'' 0) 2
           (push_error (TransportError m) s2) = (None, s3)"
    and "\<not> isArray (responseData s3)" and "responseData s3 \<noteq> JUndefined"
  shows "execute h =
           (Inr [returnJsonArray h
                   [responseData s1, JObject [(''error'', JString m)], responseData s3]], s3)"
proof -
  have single: "\<not> isArray r \<Longrightarrow> r \<noteq> JUndefined \<Longrightarrow> aggregate l r out = Inr (out @ [r])"
    for l r out
    by (cases r) (simp_all add: aggregate_def)
  have "returnData start = []"
    by (simp add: start_def note_read_def initial_def)
  then have 1: "returnData s1 = [responseData s1]"
    using try_block_ok [OF assms(3)] single [OF assms(4) assms(5)] by simp
  have 2: "returnData s2 = [responseData s1]"
    using try_block_err [OF assms(6)] 1 by simp
  have 3: "returnData s3 = [responseData s1, JObject [(''error'', JString m)], responseData s3]"
    using try_block_ok [OF assms(7)] single [OF assms(8) assms(9)] 2
    by (simp add: push_error_def error_record_def)
  show ?thesis
    using assms(1,2,3,6,7) 3 by (simp add: execute_unfold upt_three)
qed

text \<open>
  An instance of C1 on a concrete host.
\<close>

theorem continue_past_second_item_witness:
  "length (getInputData (example_host ''message'' ''get'' True get_answers)) = 3
   \<and> continueOnFail (example_host ''message'' ''get'' True get_answers)
   \<and> fst (execute (example_host ''message'' ''get'' True get_answers))
       = Inr [[JObject [(''json'', JObject [(''name'', JString ''m1'')])],
               JObject [(''json'', JObject [(''error'', JString ''boom'')])],
               JObject [(''json'', JObject [(''name'', JString ''m3'')])]]]"
  using continue_past_second_item
    [of "example_host ''message'' ''get'' True get_answers"
        "snd (try_block (example_host ''message'' ''get'' True get_answers)
                ''message'' ''get'' 0 start)"
        "''boom''"
        "snd (try_block (example_host ''message'' ''get'' True get_answers)
                ''message'' ''get'' 1
                (snd (try_block (example_host ''message'' ''get'' True get_answers)
                        ''message'' ''get'' 0 start)))"
        "snd (try_block (example_host ''message'' ''get'' True get_answers)
                ''message'' ''get'' 2
                (push_error (TransportError ''boom'')
                  (snd (try_block (example_host ''message'' ''get'' True get_answers)
                     ''message'' ''get'' 1
                     (snd (try_block (example_host ''message'' ''get'' True get_answers)
                        ''message'' ''get'' 0 start))))))"]
  by (simp add: host_eval get_answers_def run_eval)

text \<open>
  Claim C2. A run over three items with continue-on-fail disabled, in which item 1
  succeeds and item 2 raises a \<open>TransportError\<close>, ends with that same error and no
  output, in the state the failing item left: nothing is read or requested for item 3.
\<close>

theorem abort_at_second_item:
  assumes "length (getInputData h) = 3"
    and "\<not> continueOnFail h"
    and "try_block h (getString h ''resource'' 0) (getString h ''operation'' 0) 0 start = (None, s1)"
    and "try_block h (getString h ''resource'' 0) (getString h ''operation'' 0) 1 s1
           = (Some (TransportError m), s2)"
  shows "execute h = (Inl (TransportError m), s2)"
  using assms by (simp add: execute_unfold upt_three)

text \<open>
  An instance of C2 on a concrete host.
\<close>

theorem abort_at_second_item_witness:
  "length (getInputData (example_host ''message'' ''get'' False get_answers)) = 3
   \<and> \<not> continueOnFail (example_host ''message'' ''get'' False get_answers)
   \<and> fst (execute (example_host ''message'' ''get'' False get_answers))
       = Inl (TransportError ''boom'')
   \<and> map path (calls (snd (execute (example_host ''message'' ''get'' False get_answers))))
       = [''/v1/spaces/spaceName/messages/messageName'',
          ''/v1/spaces/spaceName/messages/messageName'']
   \<and> map snd (reads (snd (execute (example_host ''message'' ''get'' False get_answers))))
       = [0, 0, 0, 0, 1, 1]"
  using abort_at_second_item
    [of "example_host ''message'' ''get'' False get_answers"
        "snd (try_block (example_host ''message'' ''get'' False get_answers)
                ''message'' ''get'' 0 start)"
        "''boom''"
        "snd (try_block (example_host ''message'' ''get'' False get_answers)
                ''message'' ''get'' 1
                (snd (try_block (example_host ''message'' ''get'' False get_answers)
                        ''message'' ''get'' 0 start)))"]
  by (simp add: host_eval get_answers_def run_eval)

text \<open>
  Claim C3 fails on the code for a large array. An object-valued response contributes
  one element and \<open>undefined\<close> none, and an array within the engine's argument limit
  contributes its elements in order; but an array beyond that limit makes
  \<open>push.apply\<close> throw, so it contributes no element at all: with continue-on-fail
  enabled, the run over one item whose response holds 150000 spaces returns the single
  record \<open>{error: Maximum call stack size exceeded}\<close> instead of 150000 entries, after
  one request that succeeded.
\<close>

theorem large_array_contributes_nothing:
  "length many_spaces = 150000
   \<and> continueOnFail large_list_host
   \<and> dispatch large_list_host ''space'' ''getAll'' 0 start
       = (None, start\<lparr>responseData := JArray many_spaces,
                        calls := [\<lparr>paged = Some ''spaces'', verb = GET, path = ''/v1/spaces'',
                                   body = None, query = Some []\<rparr>],
                        reads := [(''resource'', 0), (''operation'', 0), (''returnAll'', 0)]\<rparr>)
   \<and> fst (try_block large_list_host ''space'' ''getAll'' 0 start)
       = Some (RangeError ''Maximum call stack size exceeded'')
   \<and> returnData (snd (try_block large_list_host ''space'' ''getAll'' 0 start)) = []
   \<and> fst (execute large_list_host)
       = Inr [[JObject [(''json'',
                 JObject [(''error'', JString ''Maximum call stack size exceeded'')])]]]"
proof -
  have n: "length many_spaces = 150000"
    by (simp add: many_spaces_def)
  have d: "dispatch large_list_host ''space'' ''getAll'' 0 start
       = (None, start\<lparr>responseData := JArray many_spaces,
                        calls := [\<lparr>paged = Some ''spaces'', verb = GET, path = ''/v1/spaces'',
                                   body = None, query = Some []\<rparr>],
                        reads := [(''resource'', 0), (''operation'', 0), (''returnAll'', 0)]\<rparr>)"
    by (simp add: large_list_host_def host_eval dispatch_def space_getAll_def issue_def Let_def)
  have m: "maxArguments large_list_host = 125000" and c: "continueOnFail large_list_host"
    and g: "getInputData large_list_host = [JObject []]"
    and r: "getString large_list_host ''resource'' 0 = ''space''"
    and o: "getString large_list_host ''operation'' 0 = ''getAll''"
    and j: "returnJsonArray large_list_host = map (\<lambda>d. JObject [(''json'', d)])"
    by (simp_all add: large_list_host_def example_host_def)
  have t: "try_block large_list_host ''space'' ''getAll'' 0 start
       = (Some (RangeError ''Maximum call stack size exceeded''),
          start\<lparr>responseData := JArray many_spaces,
                  calls := [\<lparr>paged = Some ''spaces'', verb = GET, path = ''/v1/spaces'',
                             body = None, query = Some []\<rparr>],
                  reads := [(''resource'', 0), (''operation'', 0), (''returnAll'', 0)]\<rparr>)"
    by (simp add: try_block_def d aggregate_def m n)
  have s: "returnData start = []"
    by (simp add: start_def note_read_def initial_def)
  have e: "fst (execute large_list_host)
       = Inr [[JObject [(''json'',
                 JObject [(''error'', JString ''Maximum call stack size exceeded'')])]]]"
    by (simp add: execute_unfold g r o j c t s push_error_def error_record_def)
  show ?thesis
    using n c d t e s by simp
qed

text \<open>
  Claim C4. \<open>message: create\<close> with the raw-JSON flag off and a text that is absent or
  empty raises \<open>NodeOperationError\<close> with the message \<open>Message Text must be provided.\<close>,
  and no request is issued for the item.
\<close>

theorem create_empty_text_fails:
  "\<not> truthy (getFlag h ''jsonParameterMessage'' i)
   \<Longrightarrow> ui_text (getMessageUi h ''messageUi'' i) = None
       \<or> ui_text (getMessageUi h ''messageUi'' i) = Some []
   \<Longrightarrow> fst (try_block h ''message'' ''create'' i s)
         = Some (NodeOperationError ''Message Text must be provided.'')
       \<and> calls (snd (try_block h ''message'' ''create'' i s)) = calls s"
  by (auto simp: try_block_def dispatch_def message_create_def create_payload_def Let_def
      note_read_def)

text \<open>
  An instance of C4 on a concrete host.
\<close>

theorem create_empty_text_fails_witness:
  "fst (try_block ((example_host ''message'' ''create'' False [])
          \<lparr>getMessageUi := \<lambda>name i. \<lparr>ui_text = Some [], ui_cards = JUndefined\<rparr>\<rparr>)
        ''message'' ''create'' 0 start)
     = Some (NodeOperationError ''Message Text must be provided.'')
   \<and> calls (snd (try_block ((example_host ''message'' ''create'' False [])
          \<lparr>getMessageUi := \<lambda>name i. \<lparr>ui_text = Some [], ui_cards = JUndefined\<rparr>\<rparr>)
        ''message'' ''create'' 0 start)) = []"
  using create_empty_text_fails [of "(example_host ''message'' ''create'' False [])
          \<lparr>getMessageUi := \<lambda>name i. \<lparr>ui_text = Some [], ui_cards = JUndefined\<rparr>\<rparr>" 0 start]
  by (simp add: host_eval)

text \<open>
  Claim C5. \<open>message: update\<close> with an empty update mask raises \<open>NodeOperationError\<close>
  with the message \<open>Update Mask must not be empty.\<close> after reading \<open>spaceName\<close>,
  \<open>messageName\<close> and \<open>updateMask\<close> only: neither the raw-JSON flag nor a payload
  parameter is read, no request is issued, \<open>qs\<close> is unchanged.
\<close>

theorem update_empty_mask_fails:
  "getStrings h ''updateMask'' i = []
   \<Longrightarrow> try_block h ''message'' ''update'' i s
       = (Some (NodeOperationError ''Update Mask must not be empty.''),
          s\<lparr>reads := reads s @ [(''spaceName'', i), (''messageName'', i), (''updateMask'', i)]\<rparr>)"
  by (simp add: try_block_def dispatch_def message_update_def Let_def note_read_def)

text \<open>
  An instance of C5 on a concrete host.
\<close>

theorem update_empty_mask_fails_witness:
  "try_block ((example_host ''message'' ''update'' False []) \<lparr>getStrings := \<lambda>name i. []\<rparr>)
       ''message'' ''update'' 0 start
     = (Some (NodeOperationError ''Update Mask must not be empty.''),
        \<lparr>qs = [], responseData = JUndefined, returnData = [], calls = [],
         reads = [(''resource'', 0), (''operation'', 0), (''spaceName'', 0),
                  (''messageName'', 0), (''updateMask'', 0)]\<rparr>)"
  using update_empty_mask_fails
          [of "(example_host ''message'' ''update'' False []) \<lparr>getStrings := \<lambda>name i. []\<rparr>" 0 start]
  by (simp add: host_eval)

text \<open>
  Claim C6. In single-page mode (\<open>returnAll\<close> not truthy) \<open>space: getAll\<close> and
  \<open>member: getAll\<close> issue one request whose query carries, as \<open>pageSize\<close>, the unsigned
  32-bit representation of the page size supplied; for \<open>-1\<close> that is 4294967295.
\<close>

theorem single_page_pageSize_uint32:
  assumes "\<not> truthy (getFlag h ''returnAll'' 0)"
    and "(res, opn) = (''space'', ''getAll'') \<or> (res, opn) = (''member'', ''getAll'')"
    and "pageSize (getFields h ''additionalFields'' i) = Some n"
  shows "(\<exists>c q. calls (snd (dispatch h res opn i s)) = calls s @ [c]
           \<and> query c = Some q
           \<and> get_prop q ''pageSize'' = JNumber (Finite (of_int (unsigned32 n))))
         \<and> unsigned32 (Finite (- 1)) = 4294967295"
proof -
  have "ushr0 (Some n) = Finite (of_int (unsigned32 n))"
    by (simp add: ushr0_def uint_ToUint32)
  moreover have "unsigned32 (Finite (- 1)) = 4294967295"
    by (simp add: unsigned32_def ceiling_def)
  ultimately show ?thesis
    using getAll_single_page [OF assms(1) assms(2), of i s] assms(3) by auto
qed

text \<open>
  An instance of C6 on a concrete host.
\<close>

theorem single_page_pageSize_uint32_witness:
  "\<exists>c q. calls (snd (dispatch (example_host ''space'' ''getAll'' False []) ''space'' ''getAll'' 0 start))
            = [c]
         \<and> query c = Some q
         \<and> get_prop q ''pageSize'' = JNumber (Finite 4294967295)"
  using single_page_pageSize_uint32
          [of "example_host ''space'' ''getAll'' False []" "''space''" "''getAll''" 0 "Finite (- 1)" start]
  by (simp add: host_eval unsigned32_def ceiling_def)

text \<open>
  Claim C7 as stated does not hold: a non-empty mask is not always sent. In structured
  mode, with the mask \<open>[text]\<close> and an empty \<open>textUi\<close>, the operation raises
  \<open>Text input must be provided.\<close> after rendering the mask, and the run ends without a
  single request.
\<close>

theorem mask_not_sent_counterexample:
  "getStrings empty_text_host ''updateMask'' 0 = [''text'']
   \<and> fst (dispatch empty_text_host ''message'' ''update'' 0 start)
       = Some (NodeOperationError ''Text input must be provided.'')
   \<and> calls (snd (dispatch empty_text_host ''message'' ''update'' 0 start)) = []
   \<and> fst (execute empty_text_host) = Inl (NodeOperationError ''Text input must be provided.'')
   \<and> calls (snd (execute empty_text_host)) = []"
  by (simp add: empty_text_host_def host_eval execute_def try_block_def dispatch_def
      message_update_def update_payload_def Let_def)

text \<open>
  Claim C7, as amended. For a non-empty update mask, the string \<open>message: update\<close> renders is the
  comma-joined list of the field names, in order and with no trailing comma, and it is
  stored as \<open>updateMask\<close> in \<open>qs\<close>. When the payload resolves, the one request issued
  carries it as \<open>updateMask\<close> in its query; when the payload fails to resolve, that
  failure is raised with \<open>qs.updateMask\<close> already set, and no request is issued.
\<close>

theorem update_mask_comma_joined:
  assumes "getStrings h ''updateMask'' i \<noteq> []"
  shows "render_updateMask (getStrings h ''updateMask'' i)
           = comma_joined (getStrings h ''updateMask'' i)
       \<and> (fst (update_payload h (getStrings h ''updateMask'' i) i s) = Inr upd \<longrightarrow>
            (\<exists>q. calls (snd (dispatch h ''message'' ''update'' i s)) = calls s @
                 [\<lparr>paged = None, verb = POST,
                   path = ''/v1/spaces/'' @ getString h ''spaceName'' i
                          @ ''/messages/'' @ getString h ''messageName'' i,
                   body = Some (object_assign [] upd), query = Some q\<rparr>]
               \<and> get_prop q ''updateMask''
                   = JString (comma_joined (getStrings h ''updateMask'' i))))
       \<and> (fst (update_payload h (getStrings h ''updateMask'' i) i s) = Inl e \<longrightarrow>
            fst (dispatch h ''message'' ''update'' i s) = Some e
            \<and> calls (snd (dispatch h ''message'' ''update'' i s)) = calls s
            \<and> get_prop (qs (snd (dispatch h ''message'' ''update'' i s))) ''updateMask''
                = JString (comma_joined (getStrings h ''updateMask'' i)))"
proof -
  let ?m = "getStrings h ''updateMask'' i"
  let ?s3 = "note_read ''updateMask'' i (note_read ''messageName'' i (note_read ''spaceName'' i s))"
  let ?s4 = "?s3\<lparr>qs := set_prop ''updateMask'' (JString (render_updateMask ?m)) (qs ?s3)\<rparr>"
  obtain r s5 where p: "update_payload h ?m i ?s4 = (r, s5)"
    by (cases "update_payload h ?m i ?s4")
  have r: "fst (update_payload h ?m i s) = r"
    using p update_payload_fst [of h ?m i s ?s4] by simp
  have c5: "calls s5 = calls s"
    using p update_payload_calls [of h ?m i ?s4] by (simp add: note_read_simps)
  have q5: "qs s5 = set_prop ''updateMask'' (JString (render_updateMask ?m)) (qs s)"
    using p update_payload_qs [of h ?m i ?s4] by (simp add: note_read_simps)
  have d: "dispatch h ''message'' ''update'' i s =
      (case r of
         Inl e \<Rightarrow> (Some e, s5)
       | Inr updateOptions \<Rightarrow>
           issue h \<lparr>paged = None, verb = POST,
                    path = ''/v1/spaces/'' @ getString h ''spaceName'' i
                           @ ''/messages/'' @ getString h ''messageName'' i,
                    body = Some (object_assign [] updateOptions),
                    query = Some (qs s5)\<rparr> s5)"
    using assms p by (simp add: dispatch_def message_update_def Let_def)
  have j: "render_updateMask ?m = comma_joined ?m"
    using assms by (rule render_updateMask_joined)
  show ?thesis
  proof (cases r)
    case (Inl e')
    then show ?thesis using d r c5 q5 j by (simp add: get_prop_set_prop)
  next
    case (Inr u)
    then show ?thesis using d r c5 q5 j by (simp add: issue_calls get_prop_set_prop)
  qed
qed

text \<open>
  An instance of C7 on a concrete host.
\<close>

theorem update_mask_comma_joined_witness:
  "render_updateMask [''text'', ''cards''] = ''text,cards''
   \<and> (\<exists>q. calls (snd (dispatch (example_host ''message'' ''update'' False [])
                         ''message'' ''update'' 0 start))
           = [\<lparr>paged = None, verb = POST, path = ''/v1/spaces/spaceName/messages/messageName'',
               body = Some [(''text'', JString ''textUi'')], query = Some q\<rparr>]
         \<and> get_prop q ''updateMask'' = JString ''text,cards'')"
  using update_mask_comma_joined
          [of "example_host ''message'' ''update'' False []" 0 start
              "[(''text'', JString ''textUi'')]" "NodeOperationError []"]
  by (simp add: host_eval update_payload_def object_assign_def Let_def)

text \<open>
  Claim C8. When the pair of \<open>resource\<close> and \<open>operation\<close> is not in the routing
  table, a run over any number of items issues no request, reads no parameter beyond
  the two selectors, and returns the empty output collection.
\<close>

theorem table_miss_noop:
  "(getString h ''resource'' 0, getString h ''operation'' 0) \<notin> set dispatch_table
   \<Longrightarrow> execute h = (Inr [returnJsonArray h []],
         \<lparr>qs = [], responseData = JUndefined, returnData = [], calls = [],
          reads = [(''resource'', 0), (''operation'', 0)]\<rparr>)"
  by (simp add: execute_def Let_def loop_miss note_read_def initial_def)

text \<open>
  An instance of C8 on a concrete host.
\<close>

theorem table_miss_noop_witness:
  "execute (example_host ''message'' ''send'' False [])
     = (Inr [[]], \<lparr>qs = [], responseData = JUndefined, returnData = [], calls = [],
                   reads = [(''resource'', 0), (''operation'', 0)]\<rparr>)"
  using table_miss_noop [of "example_host ''message'' ''send'' False []"]
  by (simp add: example_host_def dispatch_table_def)

text \<open>
  Claim C9. In single-page mode \<open>space: getAll\<close> and \<open>member: getAll\<close> send
  \<open>pageSize\<close> also when the additional fields hold none: the query of the request
  carries \<open>pageSize = 0\<close>.
\<close>

theorem single_page_pageSize_absent:
  assumes "\<not> truthy (getFlag h ''returnAll'' 0)"
    and "(res, opn) = (''space'', ''getAll'') \<or> (res, opn) = (''member'', ''getAll'')"
    and "pageSize (getFields h ''additionalFields'' i) = None"
  shows "\<exists>c q. calls (snd (dispatch h res opn i s)) = calls s @ [c]
           \<and> query c = Some q
           \<and> get_prop q ''pageSize'' = JNumber (Finite 0)"
proof -
  have "ushr0 None = Finite 0"
    by (simp add: ushr0_def ToUint32_def)
  then show ?thesis
    using getAll_single_page [OF assms(1) assms(2), of i s] assms(3) by auto
qed

text \<open>
  An instance of C9 on a concrete host.
\<close>

theorem single_page_pageSize_absent_witness:
  "\<exists>c q. calls (snd (dispatch ((example_host ''member'' ''getAll'' False [])
              \<lparr>getFields := \<lambda>name i. \<lparr>pageSize = None, pageToken = JString ''t''\<rparr>\<rparr>)
            ''member'' ''getAll'' 0 start)) = [c]
         \<and> query c = Some q
         \<and> get_prop q ''pageSize'' = JNumber (Finite 0)"
  using single_page_pageSize_absent
          [of "(example_host ''member'' ''getAll'' False [])
              \<lparr>getFields := \<lambda>name i. \<lparr>pageSize = None, pageToken = JString ''t''\<rparr>\<rparr>"
              "''member''" "''getAll''" 0 start]
  by (simp add: host_eval)

text \<open>
  Claim C10. \<open>message: create\<close> with the raw-JSON flag off and a non-empty text issues
  one POST request whose body is exactly \<open>{text: t}\<close>, whatever cards the structured
  input holds.
\<close>

theorem create_structured_body:
  assumes "\<not> truthy (getFlag h ''jsonParameterMessage'' i)"
    and "ui_text (getMessageUi h ''messageUi'' i) = Some t"
    and "t \<noteq> []"
  shows "calls (snd (dispatch h ''message'' ''create'' i s)) = calls s @
           [\<lparr>paged = None, verb = POST,
             path = ''/v1/spaces/'' @ getString h ''spaceName'' i,
             body = Some [(''text'', JString t)],
             query = Some (set_prop ''threadKey'' (JString (getString h ''threadKey'' i)) (qs s))\<rparr>]"
  using assms
  by (simp add: dispatch_def message_create_def create_payload_def Let_def issue_calls
      note_read_simps object_assign_def)

text \<open>
  An instance of C10 on a concrete host.
\<close>

theorem create_structured_body_witness:
  "calls (snd (dispatch (example_host ''message'' ''create'' False [])
                 ''message'' ''create'' 0 start))
     = [\<lparr>paged = None, verb = POST, path = ''/v1/spaces/spaceName'',
         body = Some [(''text'', JString ''hello'')],
         query = Some [(''threadKey'', JString ''threadKey'')]\<rparr>]"
  using create_structured_body [of "example_host ''message'' ''create'' False []" 0 "''hello''" start]
  by (simp add: host_eval)

end
